theory Spec2Isabelle
  imports Complex_Main "HOL-Library.Multiset"
begin

section \<open>CellTutor: a shallow embedding of \<^verbatim>\<open>src/celltutor/__init__.py\<close>\<close>

text \<open>
  The development follows the Python module class by class: the values that travel through
  it (JSON-like dictionaries), the Inspector, the Registry (two SQLite tables), the
  CellAgentBuilder and the CellAgentRuntime.

  Conventions.
  \<^item> A Python \<^verbatim>\<open>str\<close> is a \<open>string\<close>; one \<open>char\<close> stands for one code point, so the
    model covers the code points below 256 (Latin-1).
  \<^item> A \<^verbatim>\<open>Dict[str, Any]\<close> is an association list from keys to \<open>json\<close> values, looked up
    with \<open>map_of\<close> and written with \<open>dict_set\<close>.
  \<^item> An exception is a value \<open>Inl e\<close> of \<open>error + 'a\<close>.
  \<^item> Library code and collaborators (\<^verbatim>\<open>ast.parse\<close>, \<^verbatim>\<open>json.loads\<close>, the LLM, the
    visualizer) are parameters; \<^verbatim>\<open>uuid.uuid4()\<close> and \<^verbatim>\<open>time.time()\<close> are arguments that
    carry the value drawn by the call.
\<close>

subsection \<open>Values and exceptions\<close>

datatype json =
    JNull
  | JBool bool
  | JInt int
  | JFloat real
  | JStr string
  | JList "json list"
  | JObj "(string \<times> json) list"

type_synonym dict = "(string \<times> json) list"

datatype error =
    ValueError string
  | KeyError json
  | TypeError
  | AttributeError
  | IndexError
  | IntegrityError
  | UnsupportedId
  | CollaboratorError string

text \<open>Sequencing of calls that may raise: the first exception ends the computation.\<close>

definition and_then :: "error + 'a \<Rightarrow> ('a \<Rightarrow> error + 'b) \<Rightarrow> error + 'b" where
  "and_then r f = (case r of Inl e \<Rightarrow> Inl e | Inr v \<Rightarrow> f v)"

text \<open>Python truthiness, as used by \<^verbatim>\<open>or\<close>, \<^verbatim>\<open>not\<close> and conditional expressions.\<close>

fun truthy :: "json \<Rightarrow> bool" where
  "truthy JNull = False"
| "truthy (JBool b) = b"
| "truthy (JInt i) = (i \<noteq> 0)"
| "truthy (JFloat r) = (r \<noteq> 0)"
| "truthy (JStr s) = (s \<noteq> [])"
| "truthy (JList xs) = (xs \<noteq> [])"
| "truthy (JObj kvs) = (kvs \<noteq> [])"

text \<open>\<^verbatim>\<open>d[k] = v\<close>: an existing key keeps its position, a new key is appended.\<close>

fun dict_set :: "string \<Rightarrow> json \<Rightarrow> dict \<Rightarrow> dict" where
  "dict_set k v [] = [(k, v)]"
| "dict_set k v ((k', v') # d) =
     (if k' = k then (k, v) # d else (k', v') # dict_set k v d)"

text \<open>\<^verbatim>\<open>d.get(k)\<close> and \<^verbatim>\<open>d.get(k, default)\<close>.\<close>

definition dict_get :: "dict \<Rightarrow> string \<Rightarrow> json" where
  "dict_get d k = (case map_of d k of None \<Rightarrow> JNull | Some v \<Rightarrow> v)"

definition dict_get_default :: "dict \<Rightarrow> string \<Rightarrow> json \<Rightarrow> json" where
  "dict_get_default d k dflt = (case map_of d k of None \<Rightarrow> dflt | Some v \<Rightarrow> v)"

text \<open>\<^verbatim>\<open>d[k]\<close> raises KeyError on a missing key.\<close>

definition dict_item :: "dict \<Rightarrow> string \<Rightarrow> error + json" where
  "dict_item d k = (case map_of d k of None \<Rightarrow> Inl (KeyError (JStr k)) | Some v \<Rightarrow> Inr v)"

subsection \<open>String operations of the standard library\<close>

text \<open>\<^verbatim>\<open>str.lower()\<close> on Latin-1: A-Z, and the accented capitals 0xC0-0xDE except 0xD7.\<close>

definition lower_char :: "char \<Rightarrow> char" where
  "lower_char c =
     (let n = (of_char c :: nat)
      in if (65 \<le> n \<and> n \<le> 90) \<or> (192 \<le> n \<and> n \<le> 222 \<and> n \<noteq> 215)
         then char_of (n + 32) else c)"

definition lower :: "string \<Rightarrow> string" where
  "lower s = map lower_char s"

text \<open>\<^verbatim>\<open>a in b\<close> on strings: \<open>a\<close> occurs in \<open>b\<close> as a contiguous block.\<close>

fun starts_with :: "string \<Rightarrow> string \<Rightarrow> bool" where
  "starts_with [] s = True"
| "starts_with (a # as) [] = False"
| "starts_with (a # as) (c # cs) = (a = c \<and> starts_with as cs)"

fun str_in :: "string \<Rightarrow> string \<Rightarrow> bool" where
  "str_in a [] = (a = [])"
| "str_in a (c # cs) = (starts_with a (c # cs) \<or> str_in a cs)"

text \<open>Characters that \<^verbatim>\<open>str.strip()\<close> removes, and the line boundaries of
  \<^verbatim>\<open>str.splitlines()\<close>, both restricted to Latin-1.\<close>

definition is_space :: "char \<Rightarrow> bool" where
  "is_space c =
     (let n = (of_char c :: nat)
      in (9 \<le> n \<and> n \<le> 13) \<or> (28 \<le> n \<and> n \<le> 32) \<or> n = 133 \<or> n = 160)"

definition is_linebreak :: "char \<Rightarrow> bool" where
  "is_linebreak c =
     (let n = (of_char c :: nat)
      in (10 \<le> n \<and> n \<le> 13) \<or> (28 \<le> n \<and> n \<le> 30) \<or> n = 133)"

text \<open>\<^verbatim>\<open>bool(ln.strip())\<close>: the line has a character that is not white space.\<close>

definition non_blank :: "string \<Rightarrow> bool" where
  "non_blank line = list_ex (\<lambda>c. \<not> is_space c) line"

text \<open>\<^verbatim>\<open>str.splitlines()\<close>: CR LF is one boundary; a final boundary opens no empty line.\<close>

fun splitlines_from :: "string \<Rightarrow> string \<Rightarrow> string list" where
  "splitlines_from cur [] = (if cur = [] then [] else [cur])"
| "splitlines_from cur [c] =
     (if is_linebreak c then [cur] else [cur @ [c]])"
| "splitlines_from cur (c # d # cs) =
     (if c = CHR 0x0D \<and> d = CHR 0x0A then cur # splitlines_from [] cs
      else if is_linebreak c then cur # splitlines_from [] (d # cs)
      else splitlines_from (cur @ [c]) (d # cs))"

definition splitlines :: "string \<Rightarrow> string list" where
  "splitlines s = splitlines_from [] s"





subsection \<open>The syntax tree of \<^verbatim>\<open>ast\<close>\<close>

text \<open>
  A node carries its class and its child nodes in the order of
  \<^verbatim>\<open>ast.iter_child_nodes\<close>. Only the classes the Inspector tests are told apart; every
  other class (\<^verbatim>\<open>Module\<close>, \<^verbatim>\<open>AsyncFunctionDef\<close>, \<^verbatim>\<open>AsyncFor\<close>, \<^verbatim>\<open>alias\<close>, expressions) is
  \<open>Other\<close>. An \<^verbatim>\<open>Import\<close> statement always has at least one alias (the grammar requires
  it), so the node carries the name of \<^verbatim>\<open>names[0]\<close> and the names of the remaining
  aliases; \<^verbatim>\<open>ImportFrom.module\<close> is \<^verbatim>\<open>None\<close> for \<^verbatim>\<open>from . import x\<close>.
\<close>

datatype node_class =
    FunctionDef string
  | For
  | While
  | Import string "string list"
  | ImportFrom "string option"
  | Other

datatype ast = Node node_class "ast list"

text \<open>\<^verbatim>\<open>ast.walk\<close>: a queue of nodes; the first is yielded and its children join the end.\<close>

function walk_queue :: "ast list \<Rightarrow> ast list" where
  "walk_queue [] = []"
| "walk_queue (Node c kids # todo) = Node c kids # walk_queue (todo @ kids)"
  by pat_completeness auto

termination walk_queue
proof (relation "measure (\<lambda>q. sum_list (map size q))")
  show "wf (measure (\<lambda>q. sum_list (map size (q :: ast list))))"
    by simp
next
  fix c :: node_class and kids todo :: "ast list"
  have "sum_list (map size ts) \<le> size_list size ts" for ts :: "ast list"
    by (induction ts) auto
  then have "sum_list (map size kids) \<le> size_list size kids" .
  then show "(todo @ kids, Node c kids # todo) \<in> measure (\<lambda>q. sum_list (map size q))"
    by simp
qed

definition walk :: "ast \<Rightarrow> ast list" where
  "walk tree = walk_queue [tree]"

subsection \<open>Inspector\<close>

text \<open>The two dictionaries \<^verbatim>\<open>extract_summary\<close> can return, by their keys.\<close>

datatype inspection =
    ParseError string
  | Facts "string list" bool "string list" "string list"

fun func_name :: "ast \<Rightarrow> string option" where
  "func_name (Node (FunctionDef name) kids) = Some name"
| "func_name (Node c kids) = None"

fun is_loop :: "ast \<Rightarrow> bool" where
  "is_loop (Node For kids) = True"
| "is_loop (Node While kids) = True"
| "is_loop (Node c kids) = False"

text \<open>\<^verbatim>\<open>n.names[0].name\<close> of an \<^verbatim>\<open>Import\<close> node.\<close>

fun import_name :: "ast \<Rightarrow> string option" where
  "import_name (Node (Import first others) kids) = Some first"
| "import_name (Node c kids) = None"

text \<open>\<^verbatim>\<open>n.module\<close> of an \<^verbatim>\<open>ImportFrom\<close> node whose module is truthy.\<close>

fun import_from_module :: "ast \<Rightarrow> string option" where
  "import_from_module (Node (ImportFrom (Some m)) kids) = (if m \<noteq> [] then Some m else None)"
| "import_from_module (Node c kids) = None"

text \<open>\<^verbatim>\<open>list(set(xs))\<close>: the distinct elements; Python fixes no order, the model keeps
  that of \<open>remdups\<close>.\<close>

definition list_of_set :: "string list \<Rightarrow> string list" where
  "list_of_set xs = remdups xs"

definition extract_summary :: "(string \<Rightarrow> ast option) \<Rightarrow> string \<Rightarrow> inspection" where
  "extract_summary ast_parse code =
     (case ast_parse code of
        None \<Rightarrow> ParseError (take 200 code)
      | Some tree \<Rightarrow>
          (let funcs = List.map_filter func_name (walk tree);
               loops = list_ex is_loop (walk tree);
               imports = List.map_filter import_name (walk tree)
                         @ List.map_filter import_from_module (walk tree)
           in Facts funcs loops
                (list_of_set (filter (\<lambda>i. i \<noteq> []) imports))
                (filter non_blank (splitlines code))))"

text \<open>The returned dictionary itself.\<close>

fun inspection_dict :: "inspection \<Rightarrow> dict" where
  "inspection_dict (ParseError raw) =
     [(''error'', JStr ''not python or parse error''), (''raw_code'', JStr raw)]"
| "inspection_dict (Facts funcs loops imports lines) =
     [(''functions'', JList (map JStr funcs)),
      (''has_loop'', JBool loops),
      (''imports'', JList (map JStr imports)),
      (''lines'', JList (map JStr lines))]"


subsection \<open>What the specification says of the Inspector\<close>





fun is_parse_error :: "inspection \<Rightarrow> bool" where
  "is_parse_error (ParseError raw) = True"
| "is_parse_error (Facts funcs loops imports lines) = False"

subsection \<open>Registry\<close>

text \<open>
  The two tables of \<^verbatim>\<open>_init_db\<close>, rows in insertion order. The column \<^verbatim>\<open>manifest\<close> holds
  \<^verbatim>\<open>json.dumps(manifest)\<close> and is read back with \<^verbatim>\<open>json.loads\<close>; on \<open>json\<close> values the
  two are inverse, so the row holds the dictionary itself. Both \<^verbatim>\<open>id\<close> columns are
  \<^verbatim>\<open>TEXT PRIMARY KEY\<close>: an insert under an existing key raises
  \<^verbatim>\<open>sqlite3.IntegrityError\<close>.
\<close>

record agent_row =
  row_id :: string
  row_cell_index :: int
  row_manifest :: dict
  row_created_at :: real

record attempt_row =
  att_id :: string
  att_cell_id :: string
  att_ts :: real
  att_result :: dict

record registry =
  cell_agents :: "agent_row list"
  attempts :: "attempt_row list"

text \<open>The database right after \<^verbatim>\<open>_init_db\<close> on a new file.\<close>

definition empty_registry :: registry where
  "empty_registry = \<lparr>cell_agents = [], attempts = []\<rparr>"

text \<open>\<^verbatim>\<open>str(uuid.uuid4())[:8]\<close>, from the text of the UUID drawn.\<close>

definition gen_id :: "string \<Rightarrow> string" where
  "gen_id uuid4 = take 8 uuid4"

text \<open>
  \<^verbatim>\<open>register\<close> writes \<^verbatim>\<open>manifest["id"]\<close> before it inserts, so the caller's dictionary is
  changed whether or not the insert succeeds: the model returns the dictionary after the
  call beside the outcome. The declared type of an id is \<^verbatim>\<open>str\<close>; a truthy id of another
  type, which SQLite would convert or refuse, gives \<open>UnsupportedId\<close> and is not modelled
  further.
\<close>

text \<open>\<^verbatim>\<open>manifest.get("id") or gen_id()\<close>.\<close>

definition chosen_id :: "string \<Rightarrow> dict \<Rightarrow> json" where
  "chosen_id uuid4 manifest =
     (if truthy (dict_get manifest ''id'') then dict_get manifest ''id''
      else JStr (gen_id uuid4))"

definition register ::
  "string \<Rightarrow> real \<Rightarrow> int \<Rightarrow> dict \<Rightarrow> registry \<Rightarrow> dict \<times> (error + string \<times> registry)" where
  "register uuid4 now cell_index manifest reg =
     (let cid = chosen_id uuid4 manifest;
          manifest' = dict_set ''id'' cid manifest
      in (manifest',
          (case cid of
             JStr key \<Rightarrow>
               if key \<in> set (map row_id (cell_agents reg)) then Inl IntegrityError
               else Inr (key,
                 reg\<lparr>cell_agents := cell_agents reg @
                   [\<lparr>row_id = key, row_cell_index = cell_index,
                     row_manifest = manifest', row_created_at = now\<rparr>]\<rparr>)
           | _ \<Rightarrow> Inl UnsupportedId)))"

definition get_manifest :: "registry \<Rightarrow> string \<Rightarrow> dict option" where
  "get_manifest reg cell_id =
     (case find (\<lambda>r. row_id r = cell_id) (cell_agents reg) of
        None \<Rightarrow> None
      | Some r \<Rightarrow> Some (row_manifest r))"

definition store_attempt ::
  "string \<Rightarrow> real \<Rightarrow> string \<Rightarrow> dict \<Rightarrow> registry \<Rightarrow> error + string \<times> registry" where
  "store_attempt uuid4 now cell_id result reg =
     (let aid = gen_id uuid4
      in if aid \<in> set (map att_id (attempts reg)) then Inl IntegrityError
         else Inr (aid,
           reg\<lparr>attempts := attempts reg @
             [\<lparr>att_id = aid, att_cell_id = cell_id, att_ts = now, att_result = result\<rparr>]\<rparr>))"

text \<open>A run of \<^verbatim>\<open>register\<close> calls: each call with its draws, its outcome collected; a call
  that raises leaves the database as it was.\<close>

fun register_all ::
  "(string \<times> real \<times> int \<times> dict) list \<Rightarrow> registry \<Rightarrow> (error + string) list \<times> registry" where
  "register_all [] reg = ([], reg)"
| "register_all ((uuid4, now, cell_index, manifest) # calls) reg =
     (case snd (register uuid4 now cell_index manifest reg) of
        Inl e \<Rightarrow> (case register_all calls reg of (outs, reg') \<Rightarrow> (Inl e # outs, reg'))
      | Inr (cid, reg1) \<Rightarrow>
          (case register_all calls reg1 of (outs, reg') \<Rightarrow> (Inr cid # outs, reg')))"

subsection \<open>CellAgentBuilder\<close>

text \<open>The collaborators and library functions the builder and the runtime call.
  \<open>str_of\<close> is Python's \<^verbatim>\<open>str()\<close> on a value that is not a string.\<close>

record env =
  ast_parse :: "string \<Rightarrow> ast option"
  json_loads :: "string \<Rightarrow> json option"
  llm_generate :: "string \<Rightarrow> error + string"
  make_diagram :: "string \<Rightarrow> string \<Rightarrow> error + string"
  make_animation :: "string \<Rightarrow> string list \<Rightarrow> error + string"
  str_of :: "json \<Rightarrow> string"


text \<open>The escape \<^verbatim>\<open>\\n\<close> of the source text is read as the newline character.\<close>

definition nl :: string where
  "nl = [CHR 0x0A]"




subsection \<open>CellAgentRuntime\<close>




text \<open>\<^verbatim>\<open>len(quiz)\<close>.\<close>

definition py_len :: "json \<Rightarrow> error + nat" where
  "py_len v =
     (case v of
        JList xs \<Rightarrow> Inr (length xs)
      | JStr s \<Rightarrow> Inr (length s)
      | JObj kvs \<Rightarrow> Inr (length kvs)
      | _ \<Rightarrow> Inl TypeError)"

text \<open>\<^verbatim>\<open>idx < n\<close> for a length \<open>n\<close>: numbers compare (a bool as 0 or 1), anything else
  raises TypeError.\<close>

definition less_len :: "json \<Rightarrow> nat \<Rightarrow> error + bool" where
  "less_len idx n =
     (case idx of
        JInt i \<Rightarrow> Inr (i < int n)
      | JBool b \<Rightarrow> Inr ((if b then 1 else 0) < int n)
      | JFloat r \<Rightarrow> Inr (r < real n)
      | _ \<Rightarrow> Inl TypeError)"

text \<open>\<^verbatim>\<open>xs[i]\<close> on a sequence: a negative index counts from the end, an index outside
  \<^verbatim>\<open>-len .. len-1\<close> raises IndexError.\<close>

definition seq_item :: "'a list \<Rightarrow> int \<Rightarrow> error + 'a" where
  "seq_item xs i =
     (if 0 \<le> i \<and> i < int (length xs) then Inr (xs ! nat i)
      else if i < 0 \<and> - int (length xs) \<le> i then Inr (xs ! nat (int (length xs) + i))
      else Inl IndexError)"

text \<open>\<^verbatim>\<open>quiz[idx]\<close>: a list or a string is indexed by an int or a bool; the keys of a
  decoded JSON object are strings, so a number is never among them.\<close>

definition quiz_item :: "json \<Rightarrow> json \<Rightarrow> error + json" where
  "quiz_item quiz idx =
     (case quiz of
        JList xs \<Rightarrow>
          (case idx of
             JInt i \<Rightarrow> seq_item xs i
           | JBool b \<Rightarrow> seq_item xs (if b then 1 else 0)
           | _ \<Rightarrow> Inl TypeError)
      | JStr s \<Rightarrow>
          (case idx of
             JInt i \<Rightarrow> and_then (seq_item s i) (\<lambda>c. Inr (JStr [c]))
           | JBool b \<Rightarrow> and_then (seq_item s (if b then 1 else 0)) (\<lambda>c. Inr (JStr [c]))
           | _ \<Rightarrow> Inl TypeError)
      | JObj kvs \<Rightarrow> Inl (KeyError idx)
      | _ \<Rightarrow> Inl TypeError)"

text \<open>\<^verbatim>\<open>quiz[idx].get("answer_hint","").lower() if idx < len(quiz) else ""\<close>.\<close>

definition expected_hint :: "json \<Rightarrow> json \<Rightarrow> error + string" where
  "expected_hint quiz idx =
     and_then (py_len quiz) (\<lambda>n.
     and_then (less_len idx n) (\<lambda>below.
       if below then
         and_then (quiz_item quiz idx) (\<lambda>question.
           (case question of
              JObj kvs \<Rightarrow>
                (case dict_get_default kvs ''answer_hint'' (JStr []) of
                   JStr h \<Rightarrow> Inr (lower h)
                 | _ \<Rightarrow> Inl AttributeError)
            | _ \<Rightarrow> Inl AttributeError))
       else Inr []))"

record detail =
  d_index :: json
  d_user_answer :: json
  d_correct :: bool

text \<open>The body of the loop of \<^verbatim>\<open>run_quiz\<close>, for one answer.\<close>

definition grade :: "json \<Rightarrow> dict \<Rightarrow> error + detail" where
  "grade quiz ans =
     and_then (dict_item ans ''q_index'') (\<lambda>idx.
     and_then (dict_item ans ''answer'') (\<lambda>user_ans.
     and_then (expected_hint quiz idx) (\<lambda>hint.
     and_then (if hint \<noteq> [] then
                 (case user_ans of
                    JStr s \<Rightarrow> Inr (str_in hint (lower s))
                  | _ \<Rightarrow> Inl AttributeError)
               else Inr True) (\<lambda>correct.
       Inr \<lparr>d_index = idx, d_user_answer = user_ans, d_correct = correct\<rparr>))))"

fun grade_all :: "json \<Rightarrow> dict list \<Rightarrow> error + detail list" where
  "grade_all quiz [] = Inr []"
| "grade_all quiz (ans # rest) =
     and_then (grade quiz ans) (\<lambda>r.
     and_then (grade_all quiz rest) (\<lambda>rs. Inr (r # rs)))"

record quiz_result =
  res_score :: nat
  res_total :: nat
  res_details :: "detail list"

definition detail_dict :: "detail \<Rightarrow> dict" where
  "detail_dict r =
     [(''index'', d_index r), (''user_answer'', d_user_answer r),
      (''correct'', JBool (d_correct r))]"

definition quiz_result_dict :: "quiz_result \<Rightarrow> dict" where
  "quiz_result_dict s =
     [(''score'', JInt (int (res_score s))), (''total'', JInt (int (res_total s))),
      (''details'', JList (map (\<lambda>r. JObj (detail_dict r)) (res_details s)))]"

definition run_quiz ::
  "string \<Rightarrow> real \<Rightarrow> registry \<Rightarrow> string \<Rightarrow> dict list \<Rightarrow> error + quiz_result \<times> registry" where
  "run_quiz uuid4 now reg cell_id user_answers =
     (case get_manifest reg cell_id of
        None \<Rightarrow> Inl AttributeError
      | Some manifest \<Rightarrow>
          (let quiz = dict_get_default manifest ''quiz'' (JList [])
           in and_then (grade_all quiz user_answers) (\<lambda>results.
                (let summary = \<lparr>res_score = length (filter d_correct results),
                                res_total = length results,
                                res_details = results\<rparr>
                 in and_then (store_attempt uuid4 now cell_id (quiz_result_dict summary) reg)
                      (\<lambda>(aid, reg'). Inr (summary, reg'))))))"

subsection \<open>What the specification says of a graded answer\<close>

text \<open>
  An answer the quiz can grade: its \<^verbatim>\<open>q_index\<close> is an index of the stored quiz, its
  \<^verbatim>\<open>answer\<close> is a string, and the question is a dictionary whose hint, where there is one,
  is a string.
\<close>

definition answerable :: "json list \<Rightarrow> dict \<Rightarrow> bool" where
  "answerable qs ans =
     (\<exists>i s kvs h.
        map_of ans ''q_index'' = Some (JInt i) \<and> 0 \<le> i \<and> i < int (length qs) \<and>
        map_of ans ''answer'' = Some (JStr s) \<and>
        qs ! nat i = JObj kvs \<and>
        dict_get_default kvs ''answer_hint'' (JStr []) = JStr h)"

text \<open>
  The grade the specification gives such an answer: correct exactly when the lowercased
  hint occurs in the lowercased answer, and correct whenever the hint is empty.
\<close>

definition graded_as :: "json list \<Rightarrow> dict \<Rightarrow> detail \<Rightarrow> bool" where
  "graded_as qs ans r =
     (\<exists>i s kvs h.
        map_of ans ''q_index'' = Some (JInt i) \<and> 0 \<le> i \<and> i < int (length qs) \<and>
        map_of ans ''answer'' = Some (JStr s) \<and>
        qs ! nat i = JObj kvs \<and>
        dict_get_default kvs ''answer_hint'' (JStr []) = JStr h \<and>
        d_index r = JInt i \<and> d_user_answer r = JStr s \<and>
        (d_correct r \<longleftrightarrow> (\<exists>p q. lower s = p @ lower h @ q)) \<and>
        (h = [] \<longrightarrow> d_correct r))"

subsection \<open>A sample session\<close>

text \<open>
  The inputs of the worked examples. \<open>demo_code\<close> is the text
  \<^verbatim>\<open>def a():\<close> / \<^verbatim>\<open>    def b(): pass\<close> / \<^verbatim>\<open>def c(): pass\<close> / \<^verbatim>\<open>import os, sys\<close>
  and \<open>demo_tree\<close> the tree \<^verbatim>\<open>ast.parse\<close> builds for it: a \<^verbatim>\<open>Module\<close> with three
  statements; each \<^verbatim>\<open>FunctionDef\<close> has its \<^verbatim>\<open>arguments\<close> node, then its body; the
  \<^verbatim>\<open>Import\<close> has its two \<^verbatim>\<open>alias\<close> nodes. \<open>demo_parse\<close> agrees with \<^verbatim>\<open>ast.parse\<close>
  on the inputs used: it parses \<open>demo_code\<close> and rejects a run of opening brackets.
\<close>

definition demo_code :: string where
  "demo_code =
     ''def a():'' @ nl @ ''    def b(): pass'' @ nl @ ''def c(): pass'' @ nl
     @ ''import os, sys''"

definition demo_tree :: ast where
  "demo_tree =
     Node Other
       [Node (FunctionDef ''a'')
          [Node Other [], Node (FunctionDef ''b'') [Node Other [], Node Other []]],
        Node (FunctionDef ''c'') [Node Other [], Node Other []],
        Node (Import ''os'' [''sys'']) [Node Other [], Node Other []]]"

definition demo_parse :: "string \<Rightarrow> ast option" where
  "demo_parse code = (if code = demo_code then Some demo_tree else None)"

definition unbalanced :: string where
  "unbalanced = replicate 250 CHR ''(''"

text \<open>A manifest as the builder assembles it, the UUID drawn for it, and the database
  that holds it after \<^verbatim>\<open>register\<close>. The quiz is the one \<^verbatim>\<open>MockLLM\<close> returns.\<close>

definition demo_questions :: "json list" where
  "demo_questions =
     [JObj [(''q'', JStr ''What does the function return?''), (''type'', JStr ''short''),
            (''answer_hint'', JStr ''It returns an int'')],
      JObj [(''q'', JStr ''Is there a loop in the code?''), (''type'', JStr ''mcq''),
            (''options'', JList [JStr ''Yes'', JStr ''No'']),
            (''answer_hint'', JStr ''Yes'')]]"

definition demo_manifest :: dict where
  "demo_manifest =
     [(''name'', JStr ''CellAgent_1''),
      (''cell_index'', JInt 1),
      (''code_sample'', JStr ''x = 1''),
      (''summary'', JStr ''Quick summary: x = 1''),
      (''line_by_line'', JStr ''Line 1: x = 1''),
      (''diagram'', JStr ''agents/11111111_diagram.png''),
      (''animation'', JStr ''agents/22222222_anim.gif''),
      (''quiz'', JList demo_questions),
      (''created_at'', JFloat 0)]"

definition demo_uuid :: string where
  "demo_uuid = ''ab12cd34-0000-4000-8000-000000000000''"

definition other_uuid :: string where
  "other_uuid = ''77777777-0000-4000-8000-000000000000''"

definition demo_registry :: registry where
  "demo_registry =
     \<lparr>cell_agents =
        [\<lparr>row_id = ''ab12cd34'', row_cell_index = 1,
          row_manifest = demo_manifest @ [(''id'', JStr ''ab12cd34'')],
          row_created_at = 0\<rparr>],
      attempts = []\<rparr>"

definition demo_answers :: "dict list" where
  "demo_answers =
     [[(''q_index'', JInt 0), (''answer'', JStr ''It returns an INT'')],
      [(''q_index'', JInt 1), (''answer'', JStr ''no'')]]"

definition negative_answers :: "dict list" where
  "negative_answers = [[(''q_index'', JInt (- 3)), (''answer'', JStr ''Yes'')]]"

text \<open>The result of grading \<open>demo_answers\<close> against \<open>demo_registry\<close>, and the database
  after the attempt is stored under the id drawn from \<open>other_uuid\<close> at time 9.\<close>

definition demo_result :: quiz_result where
  "demo_result =
     \<lparr>res_score = 1, res_total = 2,
      res_details =
        [\<lparr>d_index = JInt 0, d_user_answer = JStr ''It returns an INT'', d_correct = True\<rparr>,
         \<lparr>d_index = JInt 1, d_user_answer = JStr ''no'', d_correct = False\<rparr>]\<rparr>"

definition demo_after :: registry where
  "demo_after =
     demo_registry\<lparr>attempts :=
       [\<lparr>att_id = ''77777777'', att_cell_id = ''ab12cd34'', att_ts = 9,
         att_result = quiz_result_dict demo_result\<rparr>]\<rparr>"






section \<open>Properties\<close>

subsection \<open>Dictionaries and strings\<close>

lemma map_of_dict_set: "map_of (dict_set k v d) = (map_of d)(k \<mapsto> v)"
  by (induction d) (auto simp: fun_eq_iff)

lemma starts_with_iff: "starts_with a s \<longleftrightarrow> (\<exists>q. s = a @ q)"
  by (induction a s rule: starts_with.induct) auto

text \<open>\<open>str_in\<close> decides the occurrence of one string inside another.\<close>

lemma str_in_iff: "str_in a b \<longleftrightarrow> (\<exists>p q. b = p @ a @ q)"
proof (induction b)
  case Nil
  then show ?case by auto
next
  case (Cons c cs)
  show ?case
  proof
    assume "str_in a (c # cs)"
    then consider "starts_with a (c # cs)" | "str_in a cs" by auto
    then show "\<exists>p q. c # cs = p @ a @ q"
    proof cases
      case 1
      then obtain q where "c # cs = a @ q" using starts_with_iff by blast
      then have "c # cs = [] @ a @ q" by simp
      then show ?thesis by blast
    next
      case 2
      then obtain p q where "cs = p @ a @ q" using Cons.IH by blast
      then have "c # cs = (c # p) @ a @ q" by simp
      then show ?thesis by blast
    qed
  next
    assume "\<exists>p q. c # cs = p @ a @ q"
    then obtain p q where pq: "c # cs = p @ a @ q" by blast
    show "str_in a (c # cs)"
    proof (cases p)
      case Nil
      then have "starts_with a (c # cs)" using pq starts_with_iff by auto
      then show ?thesis by simp
    next
      case (Cons x p')
      then have "cs = p' @ a @ q" using pq by simp
      then have "str_in a cs" using Cons.IH by blast
      then show ?thesis by simp
    qed
  qed
qed

subsection \<open>Inspector\<close>








text \<open>
  C2. \<^verbatim>\<open>extract_summary\<close> returns on every input: its result is the error dictionary
  exactly when the parser raised, and then it carries the first 200 characters of the
  input, at most 200 of them, under \<^verbatim>\<open>raw_code\<close>.
\<close>

theorem extract_summary_never_raises:
  "(is_parse_error (extract_summary parse code) \<longleftrightarrow> parse code = None) \<and>
   (parse code = None \<longrightarrow>
      extract_summary parse code = ParseError (take 200 code) \<and>
      length (take 200 code) \<le> 200 \<and>
      map_of (inspection_dict (extract_summary parse code)) ''raw_code''
        = Some (JStr (take 200 code)) \<and>
      map_of (inspection_dict (extract_summary parse code)) ''error''
        = Some (JStr ''not python or parse error''))"
  by (cases "parse code") (simp_all add: extract_summary_def Let_def)

theorem extract_summary_never_raises_witness:
  "demo_parse unbalanced = None \<and>
   is_parse_error (extract_summary demo_parse unbalanced) \<and>
   extract_summary demo_parse unbalanced = ParseError (replicate 200 CHR ''('') \<and>
   length unbalanced = 250"
proof -
  have h: "demo_parse unbalanced = None"
    by code_simp
  have t: "take 200 unbalanced = replicate 200 CHR ''(''" "length unbalanced = 250"
    by (simp_all add: unbalanced_def)
  show ?thesis
    using extract_summary_never_raises [of demo_parse unbalanced] h t by simp
qed




subsection \<open>Registry\<close>

lemma find_None_keys:
  "find (\<lambda>r. row_id r = k) rows = None \<longleftrightarrow> k \<notin> set (map row_id rows)"
  by (induction rows) auto

lemma get_manifest_None_iff:
  "get_manifest reg cell_id = None \<longleftrightarrow> cell_id \<notin> set (map row_id (cell_agents reg))"
proof (cases "find (\<lambda>r. row_id r = cell_id) (cell_agents reg)")
  case None
  then show ?thesis using find_None_keys [of cell_id "cell_agents reg"]
    by (simp add: get_manifest_def)
next
  case (Some r)
  then show ?thesis using find_None_keys [of cell_id "cell_agents reg"]
    by (simp add: get_manifest_def)
qed

lemma find_append_new:
  "k \<notin> set (map row_id rows) \<Longrightarrow> row_id r = k \<Longrightarrow>
   find (\<lambda>r. row_id r = k) (rows @ [r]) = Some r"
  by (induction rows) auto

text \<open>What a call of \<^verbatim>\<open>register\<close> that returned has done.\<close>

lemma register_Inr:
  assumes "snd (register uuid4 now cell_index manifest reg) = Inr (cid, reg')"
  shows "chosen_id uuid4 manifest = JStr cid"
    and "cid \<notin> set (map row_id (cell_agents reg))"
    and "cell_agents reg' = cell_agents reg @
           [\<lparr>row_id = cid, row_cell_index = cell_index,
             row_manifest = dict_set ''id'' (JStr cid) manifest, row_created_at = now\<rparr>]"
    and "attempts reg' = attempts reg"
  using assms by (auto simp: register_def Let_def split: json.splits if_splits)

lemma register_all_keys:
  "register_all calls reg = (outs, reg') \<Longrightarrow>
   set (map row_id (cell_agents reg'))
     = set (map row_id (cell_agents reg)) \<union> {cid. Inr cid \<in> set outs}"
proof (induction calls arbitrary: reg outs reg')
  case Nil
  then show ?case by simp
next
  case (Cons call calls)
  obtain uuid4 now cell_index manifest where call: "call = (uuid4, now, cell_index, manifest)"
    by (cases call) auto
  show ?case
  proof (cases "snd (register uuid4 now cell_index manifest reg)")
    case (Inl e)
    obtain outs1 where r: "register_all calls reg = (outs1, reg')" and o: "outs = Inl e # outs1"
      using Cons.prems call Inl by (auto split: prod.splits)
    show ?thesis using Cons.IH [OF r] o by auto
  next
    case (Inr p)
    obtain cid reg1 where p: "p = (cid, reg1)" by (cases p)
    obtain outs1 where r: "register_all calls reg1 = (outs1, reg')"
      and o: "outs = Inr cid # outs1"
      using Cons.prems call Inr p by (auto split: prod.splits)
    have "cell_agents reg1 = cell_agents reg @
           [\<lparr>row_id = cid, row_cell_index = cell_index,
             row_manifest = dict_set ''id'' (JStr cid) manifest, row_created_at = now\<rparr>]"
      using register_Inr(3) Inr p by simp
    then show ?thesis using Cons.IH [OF r] o by auto
  qed
qed

text \<open>
  C9. Starting from a new database, after any run of \<^verbatim>\<open>register\<close> calls,
  \<^verbatim>\<open>get_manifest\<close> with an id that no call returned yields \<^verbatim>\<open>None\<close>: no exception (the
  function has none) and no default payload.
\<close>

theorem get_manifest_never_registered:
  assumes "register_all calls empty_registry = (outs, reg)"
    and "Inr cell_id \<notin> set outs"
  shows "get_manifest reg cell_id = None"
  using register_all_keys [OF assms(1)] assms(2)
  by (simp add: get_manifest_None_iff empty_registry_def)

theorem get_manifest_never_registered_witness:
  "register_all [(demo_uuid, 0, 1, demo_manifest)] empty_registry
     = ([Inr ''ab12cd34''], demo_registry) \<and>
   Inr ''77777777'' \<notin> set [Inr ''ab12cd34'' :: error + string] \<and>
   get_manifest demo_registry ''77777777'' = None"
proof -
  have r: "register_all [(demo_uuid, 0, 1, demo_manifest)] empty_registry
             = ([Inr ''ab12cd34''], demo_registry)"
    by (simp add: register_def chosen_id_def dict_get_def demo_manifest_def gen_id_def
        demo_uuid_def empty_registry_def demo_registry_def Let_def)
  have n: "Inr ''77777777'' \<notin> set [Inr ''ab12cd34'' :: error + string]"
    by simp
  show ?thesis
    using get_manifest_never_registered [OF r n] r n by simp
qed

text \<open>
  C10. When the manifest carries no id (none, or a falsy one), \<^verbatim>\<open>register\<close> leaves the
  caller's dictionary with \<^verbatim>\<open>id\<close> set to the generated id and every other key as it was;
  this happens before the insert, so the row a successful call stores is that
  dictionary, id included.
\<close>

theorem register_stamps_id:
  assumes "\<not> truthy (dict_get manifest ''id'')"
  shows "fst (register uuid4 now cell_index manifest reg)
           = dict_set ''id'' (JStr (gen_id uuid4)) manifest
         \<and> map_of (fst (register uuid4 now cell_index manifest reg)) ''id''
           = Some (JStr (gen_id uuid4))
         \<and> (\<forall>k. k \<noteq> ''id'' \<longrightarrow>
              map_of (fst (register uuid4 now cell_index manifest reg)) k = map_of manifest k)
         \<and> (\<forall>cid reg'. snd (register uuid4 now cell_index manifest reg) = Inr (cid, reg') \<longrightarrow>
              cid = gen_id uuid4 \<and>
              get_manifest reg' cid = Some (fst (register uuid4 now cell_index manifest reg)))"
proof -
  have m': "fst (register uuid4 now cell_index manifest reg)
           = dict_set ''id'' (JStr (gen_id uuid4)) manifest"
    using assms by (simp add: register_def chosen_id_def Let_def)
  have stored: "cid = gen_id uuid4 \<and> get_manifest reg' cid
                  = Some (dict_set ''id'' (JStr (gen_id uuid4)) manifest)"
    if "snd (register uuid4 now cell_index manifest reg) = Inr (cid, reg')" for cid reg'
  proof -
    have c: "cid = gen_id uuid4"
      using register_Inr(1) [OF that] assms by (simp add: chosen_id_def)
    show ?thesis
      using register_Inr(2,3) [OF that] c
      by (simp add: get_manifest_def find_append_new)
  qed
  show ?thesis
    unfolding m' using stored by (simp add: map_of_dict_set)
qed

theorem register_stamps_id_witness:
  "\<not> truthy (dict_get demo_manifest ''id'') \<and>
   fst (register demo_uuid 0 1 demo_manifest empty_registry)
     = demo_manifest @ [(''id'', JStr ''ab12cd34'')] \<and>
   map_of (fst (register demo_uuid 0 1 demo_manifest empty_registry)) ''name''
     = map_of demo_manifest ''name''"
proof -
  have h: "\<not> truthy (dict_get demo_manifest ''id'')"
    by (simp add: dict_get_def demo_manifest_def)
  have e: "dict_set ''id'' (JStr (gen_id demo_uuid)) demo_manifest
             = demo_manifest @ [(''id'', JStr ''ab12cd34'')]"
    by (simp add: demo_manifest_def gen_id_def demo_uuid_def)
  note t = register_stamps_id [OF h, of demo_uuid 0 1 empty_registry]
  have a: "fst (register demo_uuid 0 1 demo_manifest empty_registry)
             = demo_manifest @ [(''id'', JStr ''ab12cd34'')]"
    using t e by simp
  have "\<forall>k. k \<noteq> ''id'' \<longrightarrow>
          map_of (fst (register demo_uuid 0 1 demo_manifest empty_registry)) k
            = map_of demo_manifest k"
    using t by blast
  then have b: "map_of (fst (register demo_uuid 0 1 demo_manifest empty_registry)) ''name''
             = map_of demo_manifest ''name''"
    by simp
  show ?thesis
    using h a b by blast
qed




subsection \<open>CellAgentRuntime\<close>




text \<open>The grade of one answer that refers to a question of the quiz.\<close>

lemma grade_in_range:
  assumes "map_of ans ''q_index'' = Some (JInt i)"
    and "0 \<le> i" and "i < int (length qs)"
    and "map_of ans ''answer'' = Some (JStr s)"
    and "qs ! nat i = JObj kvs"
    and "dict_get_default kvs ''answer_hint'' (JStr []) = JStr h"
  shows "grade (JList qs) ans =
           Inr \<lparr>d_index = JInt i, d_user_answer = JStr s,
                d_correct = str_in (lower h) (lower s)\<rparr>"
proof -
  have hint: "expected_hint (JList qs) (JInt i) = Inr (lower h)"
    using assms(2,3,5,6)
    by (simp add: expected_hint_def and_then_def py_len_def less_len_def quiz_item_def
        seq_item_def Let_def)
  have empty: "str_in [] (lower s)"
    by (cases "lower s") simp_all
  show ?thesis
    using assms(1,4) hint empty
    by (simp add: grade_def and_then_def dict_item_def)
qed

lemma grade_answerable:
  assumes "answerable qs ans"
  shows "\<exists>r. grade (JList qs) ans = Inr r \<and> graded_as qs ans r"
proof -
  obtain i s kvs h where b:
    "map_of ans ''q_index'' = Some (JInt i)" "0 \<le> i" "i < int (length qs)"
    "map_of ans ''answer'' = Some (JStr s)" "qs ! nat i = JObj kvs"
    "dict_get_default kvs ''answer_hint'' (JStr []) = JStr h"
    using assms unfolding answerable_def by blast
  let ?r = "\<lparr>d_index = JInt i, d_user_answer = JStr s,
                d_correct = str_in (lower h) (lower s)\<rparr>"
  have g: "grade (JList qs) ans = Inr ?r"
    by (rule grade_in_range [OF b])
  have "graded_as qs ans ?r"
    unfolding graded_as_def using b
    by (intro exI [of _ i] exI [of _ s] exI [of _ kvs] exI [of _ h])
       (auto simp: str_in_iff lower_def)
  then show ?thesis using g by blast
qed

lemma grade_all_answerable:
  assumes "list_all (answerable qs) answers"
  shows "\<exists>rs. grade_all (JList qs) answers = Inr rs \<and> list_all2 (graded_as qs) answers rs"
  using assms
proof (induction answers)
  case Nil
  then show ?case by simp
next
  case (Cons a answers)
  obtain r where r: "grade (JList qs) a = Inr r" "graded_as qs a r"
    using grade_answerable Cons.prems by force
  obtain rs where rs: "grade_all (JList qs) answers = Inr rs"
      "list_all2 (graded_as qs) answers rs"
    using Cons by auto
  show ?case using r rs by (simp add: and_then_def)
qed

lemma grade_all_length: "grade_all quiz answers = Inr rs \<Longrightarrow> length rs = length answers"
proof (induction answers arbitrary: rs)
  case Nil
  then show ?case by simp
next
  case (Cons a answers)
  then show ?case
    by (auto simp: and_then_def split: sum.splits)
qed

lemma run_quiz_demo:
  "run_quiz other_uuid 9 demo_registry ''ab12cd34'' demo_answers = Inr (demo_result, demo_after)"
  by code_simp

text \<open>
  C5. When the manifest is stored with a list as its quiz, every answer refers to a
  question of that list and is a string, and the id drawn for the attempt is new,
  \<^verbatim>\<open>run_quiz\<close> returns: the details grade each answer in turn, correct exactly when the
  lowercased hint occurs in the lowercased answer and correct whenever the hint is
  empty, and the score is the number of details graded correct.
\<close>

theorem run_quiz_grading:
  assumes "get_manifest reg cell_id = Some manifest"
    and "map_of manifest ''quiz'' = Some (JList qs)"
    and "list_all (answerable qs) user_answers"
    and "gen_id uuid4 \<notin> set (map att_id (attempts reg))"
  shows "\<exists>res reg'.
           run_quiz uuid4 now reg cell_id user_answers = Inr (res, reg') \<and>
           list_all2 (graded_as qs) user_answers (res_details res) \<and>
           res_score res = length (filter d_correct (res_details res))"
proof -
  obtain rs where rs: "grade_all (JList qs) user_answers = Inr rs"
      "list_all2 (graded_as qs) user_answers rs"
    using grade_all_answerable [OF assms(3)] by blast
  show ?thesis
    using assms(1,2,4) rs
    by (simp add: run_quiz_def dict_get_default_def and_then_def store_attempt_def Let_def)
qed

theorem run_quiz_grading_witness:
  "get_manifest demo_registry ''ab12cd34'' = Some (demo_manifest @ [(''id'', JStr ''ab12cd34'')]) \<and>
   map_of (demo_manifest @ [(''id'', JStr ''ab12cd34'')]) ''quiz'' = Some (JList demo_questions) \<and>
   list_all (answerable demo_questions) demo_answers \<and>
   gen_id other_uuid \<notin> set (map att_id (attempts demo_registry)) \<and>
   (\<exists>res reg'.
      run_quiz other_uuid 9 demo_registry ''ab12cd34'' demo_answers = Inr (res, reg') \<and>
      list_all2 (graded_as demo_questions) demo_answers (res_details res) \<and>
      res_score res = 1)"
proof -
  have h1: "get_manifest demo_registry ''ab12cd34''
              = Some (demo_manifest @ [(''id'', JStr ''ab12cd34'')])"
    by (simp add: get_manifest_def demo_registry_def)
  have h2: "map_of (demo_manifest @ [(''id'', JStr ''ab12cd34'')]) ''quiz''
              = Some (JList demo_questions)"
    by (simp add: demo_manifest_def)
  have h3: "list_all (answerable demo_questions) demo_answers"
    by (simp add: answerable_def demo_answers_def demo_questions_def dict_get_default_def)
  have h4: "gen_id other_uuid \<notin> set (map att_id (attempts demo_registry))"
    by (simp add: demo_registry_def)
  obtain res reg' where r:
    "run_quiz other_uuid 9 demo_registry ''ab12cd34'' demo_answers = Inr (res, reg')"
    "list_all2 (graded_as demo_questions) demo_answers (res_details res)"
    "res_score res = length (filter d_correct (res_details res))"
    using run_quiz_grading [OF h1 h2 h3 h4, of 9] by blast
  have "res = demo_result"
    using r(1) run_quiz_demo by simp
  then have "res_score res = 1"
    by (simp add: demo_result_def)
  then show ?thesis
    using h1 h2 h3 h4 r by blast
qed

text \<open>
  C6. \<^verbatim>\<open>run_quiz\<close> guards the index with \<^verbatim>\<open>idx < len(quiz)\<close> only. An index at or past
  the end gives the empty hint; an index below \<^verbatim>\<open>-len(quiz)\<close> passes the guard and
  \<^verbatim>\<open>quiz[idx]\<close> raises \<^verbatim>\<open>IndexError\<close>: with the two questions of \<open>demo_registry\<close> and
  \<^verbatim>\<open>q_index = -3\<close> the call raises instead of grading the answer correct.
\<close>

theorem run_quiz_negative_index:
  "expected_hint (JList demo_questions) (JInt 2) = Inr [] \<and>
   expected_hint (JList demo_questions) (JInt (- 3)) = Inl IndexError \<and>
   run_quiz other_uuid 9 demo_registry ''ab12cd34'' negative_answers = Inl IndexError"
proof -
  have 1: "expected_hint (JList demo_questions) (JInt 2) = Inr []"
    by code_simp
  have 2: "expected_hint (JList demo_questions) (JInt (- 3)) = Inl IndexError"
    by code_simp
  have 3: "run_quiz other_uuid 9 demo_registry ''ab12cd34'' negative_answers = Inl IndexError"
    by code_simp
  show ?thesis using 1 2 3 by simp
qed

text \<open>
  C8, as the code has it. A call of \<^verbatim>\<open>run_quiz\<close> that returns has appended exactly one
  row to the attempts, for this cell and holding the returned result, has left the
  manifests alone, and its \<^verbatim>\<open>total\<close> is the length of the answers list.
\<close>

theorem run_quiz_one_attempt:
  assumes "run_quiz uuid4 now reg cell_id user_answers = Inr (res, reg')"
  shows "(\<exists>row. attempts reg' = attempts reg @ [row] \<and>
                att_cell_id row = cell_id \<and> att_result row = quiz_result_dict res) \<and>
         cell_agents reg' = cell_agents reg \<and>
         res_total res = length user_answers"
proof -
  obtain manifest where m: "get_manifest reg cell_id = Some manifest"
    using assms by (auto simp: run_quiz_def split: option.splits)
  let ?quiz = "dict_get_default manifest ''quiz'' (JList [])"
  obtain rs where rs: "grade_all ?quiz user_answers = Inr rs"
    using assms m by (auto simp: run_quiz_def and_then_def Let_def split: sum.splits)
  have len: "length rs = length user_answers"
    using grade_all_length [OF rs] .
  show ?thesis
    using assms m rs len
    by (auto simp: run_quiz_def and_then_def Let_def store_attempt_def
             split: sum.splits if_splits)
qed

theorem run_quiz_one_attempt_witness:
  "run_quiz other_uuid 9 demo_registry ''ab12cd34'' demo_answers = Inr (demo_result, demo_after) \<and>
   attempts demo_registry = [] \<and>
   length (attempts demo_after) = 1 \<and>
   res_total demo_result = length demo_answers"
proof -
  have 1: "attempts demo_registry = []"
    by (simp add: demo_registry_def)
  have 2: "length (attempts demo_after) = 1"
    by (simp add: demo_after_def)
  show ?thesis
    using run_quiz_one_attempt [OF run_quiz_demo] run_quiz_demo 1 2 by simp
qed

text \<open>
  C8, as the specification words it ("every call"), fails for a call with an id that is
  absent from the store: it raises before \<^verbatim>\<open>store_attempt\<close> is reached, so it writes no
  attempt and returns no result.
\<close>

theorem run_quiz_unknown_cell_counterexample:
  "get_manifest empty_registry ''ab12cd34'' = None \<and>
   run_quiz other_uuid 9 empty_registry ''ab12cd34'' demo_answers = Inl AttributeError"
  by (simp add: get_manifest_def empty_registry_def run_quiz_def)

subsection \<open>CellAgentBuilder\<close>




end
